theory Spec2Isabelle
  imports Complex_Main "HOL-Library.Word"
begin

unbundle bit_operations_syntax

section \<open>Data model (pkg/models, pkg/errors)\<close>

text \<open>
  Go's \<open>int32\<close> and \<open>uint8\<close> are words of that width: \<open>+\<close>, \<open>-\<close> and \<open>*\<close> wrap
  around, and the comparisons of \<open>int32\<close> values are the signed ones (\<open><s\<close>, \<open>\<le>s\<close>).
\<close>

type_synonym int32 = "32 word"
type_synonym uint8 = "8 word"

record Aggregates =
  LastPaymentDate :: string
  Rate :: uint8
  LoanSum :: int32
  MonthlyPayment :: int32
  Overpayment :: int32

record Program =
  Salary :: bool
  Military :: bool
  Base :: bool

record Params =
  ObjectCost :: int32
  InitialPayment :: int32
  Months :: int32

text \<open>
  The request repeats the field names of \<open>Params\<close>; its selectors carry the prefix
  \<open>req\<close> here, and the fields of \<open>Result\<close> and \<open>CacheStorageFormat\<close> the prefixes
  \<open>res\<close> and \<open>csf\<close>.
\<close>

record ExecuteReqeust =
  reqObjectCost :: int32
  reqInitialPayment :: int32
  reqMonths :: int32
  reqProgram :: Program

record Result =
  resAggregates :: Aggregates
  resParams :: Params
  resProgram :: Program

record ExecuteResponse =
  Result :: Result

record CacheStorageFormat =
  csfAggregates :: Aggregates
  csfParams :: Params
  csfProgram :: Program
  csfID :: int32

datatype error =
  ErrNoTrueValues
| ErrMoreThanOneTrue
| ErrInitalPaymentIsTooSmall
| ErrInvalidPath

text \<open>The zero value of \<open>models.Program\<close>: every flag false.\<close>

definition Program_zero :: Program where
  "Program_zero = \<lparr>Salary = False, Military = False, Base = False\<rparr>"

section \<open>Validators (internal/handlers)\<close>

text \<open>
  \<open>initialPaymentValidator\<close>: the four early returns of the source in their order. The
  product \<open>initialPayment * 5\<close> is an \<open>int32\<close> product and wraps around.
\<close>

definition initialPaymentValidator :: "int32 \<Rightarrow> int32 \<Rightarrow> bool" where
  "initialPaymentValidator objectCost initialPayment =
     (if objectCost <s initialPayment then False
      else if objectCost = 0 \<and> initialPayment = 0 then False
      else if initialPayment = 0 then False
      else if initialPayment * 5 <s objectCost then False
      else True)"

text \<open>
  \<open>programValidator\<close>: \<open>countTrue\<close> and \<open>lastTrueField\<close> are updated by the three
  \<open>if\<close> statements in the order base, military, salary; then \<open>hasAnyField\<close> is
  computed and the three checks follow. \<open>countTrue\<close> is at most 3, so Go's \<open>int\<close> is
  a \<open>nat\<close> here.
\<close>

definition programValidator :: "ExecuteReqeust \<Rightarrow> error + string" where
  "programValidator data =
     (let p = reqProgram data;
          (countTrue, lastTrueField) = (0::nat, '''');
          (countTrue, lastTrueField) =
             (if Base p then (countTrue + 1, ''base'') else (countTrue, lastTrueField));
          (countTrue, lastTrueField) =
             (if Military p then (countTrue + 1, ''military'') else (countTrue, lastTrueField));
          (countTrue, lastTrueField) =
             (if Salary p then (countTrue + 1, ''salary'') else (countTrue, lastTrueField));
          hasAnyField = (Base p \<or> Military p \<or> Salary p)
      in if \<not> hasAnyField then Inl ErrNoTrueValues
         else if countTrue = 0 then Inl ErrNoTrueValues
         else if countTrue > 1 then Inl ErrMoreThanOneTrue
         else Inr lastTrueField)"

text \<open>The number of program flags that are set, for stating the claims.\<close>

definition flags_set :: "Program \<Rightarrow> nat" where
  "flags_set p = (if Base p then 1 else 0) + (if Military p then 1 else 0)
                 + (if Salary p then 1 else 0)"

text \<open>\<open>getLoanRateAndProgram\<close>: the switch on the program's name; the zero values otherwise.\<close>

definition getLoanRateAndProgram :: "string \<Rightarrow> uint8 \<times> Program" where
  "getLoanRateAndProgram loanProgram =
     (if loanProgram = ''base'' then (10, Program_zero\<lparr>Base := True\<rparr>)
      else if loanProgram = ''military'' then (9, Program_zero\<lparr>Military := True\<rparr>)
      else if loanProgram = ''salary'' then (8, Program_zero\<lparr>Salary := True\<rparr>)
      else (0, Program_zero))"

section \<open>Floating point (Go's \<open>float64\<close> and the functions of \<open>math\<close> the handlers call)\<close>

text \<open>
  A \<open>float64\<close> is modelled as an exact rational or one of the three special values of
  IEEE 754. The special values and the rules that produce them (division by zero,
  \<open>Inf - Inf\<close>, \<open>0 * Inf\<close>) are as in Go; the rounding of each finite result to 53 bits
  and the overflow of large finite results are not modelled, and the zero is \<open>+0\<close>.
  Statements about all inputs therefore are statements about this exact arithmetic;
  the concrete evaluations with results in the range of \<open>int32\<close> are at inputs whose
  exact results lie more than 0.2 away from the nearest integer, where the rounding
  cannot change a ceiling, and the one beyond that range exceeds it by a factor of 40.
\<close>

datatype float64 = Finite rat | PosInf | NegInf | NaN

fun fneg :: "float64 \<Rightarrow> float64" where
  "fneg (Finite a) = Finite (- a)"
| "fneg PosInf = NegInf"
| "fneg NegInf = PosInf"
| "fneg NaN = NaN"

fun fadd :: "float64 \<Rightarrow> float64 \<Rightarrow> float64" where
  "fadd (Finite a) (Finite b) = Finite (a + b)"
| "fadd NaN y = NaN"
| "fadd x NaN = NaN"
| "fadd PosInf NegInf = NaN"
| "fadd NegInf PosInf = NaN"
| "fadd PosInf y = PosInf"
| "fadd NegInf y = NegInf"
| "fadd (Finite a) y = y"

definition fsub :: "float64 \<Rightarrow> float64 \<Rightarrow> float64" where
  "fsub x y = fadd x (fneg y)"

text \<open>An infinity of the sign of \<open>a\<close>; \<open>NaN\<close> when \<open>a\<close> is zero.\<close>

definition signed_inf :: "rat \<Rightarrow> float64" where
  "signed_inf a = (if 0 < a then PosInf else if a < 0 then NegInf else NaN)"

fun fmul :: "float64 \<Rightarrow> float64 \<Rightarrow> float64" where
  "fmul (Finite a) (Finite b) = Finite (a * b)"
| "fmul NaN y = NaN"
| "fmul x NaN = NaN"
| "fmul PosInf (Finite b) = signed_inf b"
| "fmul NegInf (Finite b) = signed_inf (- b)"
| "fmul (Finite a) PosInf = signed_inf a"
| "fmul (Finite a) NegInf = signed_inf (- a)"
| "fmul PosInf PosInf = PosInf"
| "fmul NegInf NegInf = PosInf"
| "fmul PosInf NegInf = NegInf"
| "fmul NegInf PosInf = NegInf"

text \<open>Division: a finite nonzero value over zero is an infinity, zero over zero is \<open>NaN\<close>.\<close>

fun fdiv :: "float64 \<Rightarrow> float64 \<Rightarrow> float64" where
  "fdiv (Finite a) (Finite b) = (if b \<noteq> 0 then Finite (a / b) else signed_inf a)"
| "fdiv NaN y = NaN"
| "fdiv x NaN = NaN"
| "fdiv (Finite a) y = Finite 0"
| "fdiv PosInf (Finite b) = (if 0 \<le> b then PosInf else NegInf)"
| "fdiv NegInf (Finite b) = (if 0 \<le> b then NegInf else PosInf)"
| "fdiv PosInf PosInf = NaN"
| "fdiv PosInf NegInf = NaN"
| "fdiv NegInf PosInf = NaN"
| "fdiv NegInf NegInf = NaN"

text \<open>
  \<open>math.Pow x y\<close> for an exponent that is the conversion of an integer \<open>n\<close> (the
  handlers pass \<open>float64(months)\<close>). The special cases in the order of Go's
  documentation: \<open>Pow(x, 0) = 1\<close> for every \<open>x\<close>, \<open>Pow(1, y) = 1\<close>,
  \<open>Pow(NaN, y) = NaN\<close>, \<open>Pow(+0, y) = +Inf\<close> for \<open>y < 0\<close>, \<open>Pow(+Inf, y)\<close> is
  \<open>+Inf\<close> for \<open>y > 0\<close> and \<open>+0\<close> for \<open>y < 0\<close>, and \<open>Pow(-Inf, y) = Pow(-0, -y)\<close>.
\<close>

definition Pow :: "float64 \<Rightarrow> int \<Rightarrow> float64" where
  "Pow x n =
     (if n = 0 then Finite 1
      else case x of
        Finite a \<Rightarrow>
          (if a = 1 then Finite 1
           else if a = 0 then (if n < 0 then PosInf else Finite 0)
           else Finite (a powi n))
      | NaN \<Rightarrow> NaN
      | PosInf \<Rightarrow> (if 0 < n then PosInf else Finite 0)
      | NegInf \<Rightarrow> (if n < 0 then Finite 0 else if odd n then NegInf else PosInf))"

definition Ceil :: "float64 \<Rightarrow> float64" where
  "Ceil x = (case x of Finite a \<Rightarrow> Finite (of_int \<lceil>a\<rceil>) | _ \<Rightarrow> x)"

definition float64_of_int32 :: "int32 \<Rightarrow> float64" where
  "float64_of_int32 i = Finite (of_int (sint i))"

definition float64_of_uint8 :: "uint8 \<Rightarrow> float64" where
  "float64_of_uint8 i = Finite (of_int (uint i))"

text \<open>
  The conversion \<open>int32(x)\<close> truncates towards zero. Where the truncated value is not an
  \<open>int32\<close> (or \<open>x\<close> is not finite) Go leaves the result to the implementation: the model
  takes that result from the parameter \<open>impl\<close>.
\<close>

definition int32_of_float64 :: "(float64 \<Rightarrow> int32) \<Rightarrow> float64 \<Rightarrow> int32" where
  "int32_of_float64 impl x =
     (case x of
        Finite a \<Rightarrow>
          (let t = (if 0 \<le> a then \<lfloor>a\<rfloor> else \<lceil>a\<rceil>)
           in if - (2 ^ 31) \<le> t \<and> t < 2 ^ 31 then word_of_int t else impl x)
      | _ \<Rightarrow> impl x)"

text \<open>
  One implementation, for evaluating at concrete inputs: on amd64 the conversion of a
  value that is not an \<open>int32\<close> gives the smallest \<open>int32\<close>.
\<close>

definition int32_indefinite :: "float64 \<Rightarrow> int32" where
  "int32_indefinite x = - (2 ^ 31)"

section \<open>The annuity calculator (internal/handlers)\<close>

text \<open>The first two assignments of \<open>monthlyPaymentCalculator\<close>, named for the claims.\<close>

definition monthlyRate_of :: "float64 \<Rightarrow> float64" where
  "monthlyRate_of loanRate = fdiv loanRate (Finite (100 * 12))"

definition factor_of :: "float64 \<Rightarrow> int32 \<Rightarrow> float64" where
  "factor_of loanRate months =
     Pow (fadd (Finite 1) (monthlyRate_of loanRate)) (sint months)"

definition monthlyPaymentCalculator ::
  "(float64 \<Rightarrow> int32) \<Rightarrow> float64 \<Rightarrow> float64 \<Rightarrow> int32 \<Rightarrow> int32 \<times> int32" where
  "monthlyPaymentCalculator impl objectCost loanRate months =
     (let monthlyRate = monthlyRate_of loanRate;
          factor = factor_of loanRate months;
          monthlyPayment = int32_of_float64 impl
            (Ceil (fdiv (fmul objectCost (fmul monthlyRate factor)) (fsub factor (Finite 1))));
          overpayment = int32_of_float64 impl
            (Ceil (fsub (fmul (float64_of_int32 monthlyPayment) (float64_of_int32 months))
                        objectCost))
      in (monthlyPayment, overpayment))"

section \<open>Dates (the part of Go's \<open>time\<close> that \<open>prepareResponse\<close> calls)\<close>

text \<open>
  Of a \<open>time.Time\<close> only the calendar date matters to \<open>AddDate\<close> with whole months and
  to the date layouts: the clock is carried over unchanged, and the location is taken
  to have no transition between the two dates.
\<close>

record Time =
  year :: int
  month :: int
  day :: int

definition isLeap :: "int \<Rightarrow> bool" where
  "isLeap y = (y mod 4 = 0 \<and> (y mod 100 \<noteq> 0 \<or> y mod 400 = 0))"

definition daysIn :: "int \<Rightarrow> int \<Rightarrow> int" where
  "daysIn m y =
     (if m = 2 then (if isLeap y then 29 else 28)
      else if m = 4 \<or> m = 6 \<or> m = 9 \<or> m = 11 then 30
      else 31)"

text \<open>
  \<open>t.AddDate(0, months, 0)\<close> is \<open>Date(year, month + months, day, ...)\<close>, which
  normalises: the month overflows into the year (Go's \<open>norm\<close> rounds towards minus
  infinity, as \<open>div\<close> and \<open>mod\<close> do), and a day past the end of the month runs over
  into the next month (October 32 is November 1). The day of a date is at most 31 and
  a month has at least 28 days, so the overrun stays within the next month; December
  has 31 days, so the month after the overrun is at most 12.
\<close>

definition AddDate :: "Time \<Rightarrow> int \<Rightarrow> Time" where
  "AddDate t months =
     (let m = month t - 1 + months;
          y = year t + m div 12;
          mo = m mod 12 + 1
      in if daysIn mo y < day t
         then \<lparr>year = y, month = mo + 1, day = day t - daysIn mo y\<rparr>
         else \<lparr>year = y, month = mo, day = day t\<rparr>)"

definition digit :: "nat \<Rightarrow> char" where
  "digit d = ''0123456789'' ! d"

fun digits :: "nat \<Rightarrow> string" where
  "digits n = (if n < 10 then [digit n] else digits (n div 10) @ [digit (n mod 10)])"

declare digits.simps [simp del]

text \<open>
  Go's \<open>appendInt x width\<close>: the decimal digits of \<open>x\<close>, padded with zeros on the left up
  to \<open>width\<close>, after a minus sign when \<open>x\<close> is negative.
\<close>

definition appendInt :: "int \<Rightarrow> nat \<Rightarrow> string" where
  "appendInt x width =
     (let ds = digits (nat \<bar>x\<bar>)
      in (if x < 0 then ''-'' else []) @ replicate (width - length ds) (CHR ''0'') @ ds)"

text \<open>
  \<open>Time.Format\<close>, for layouts made of the reference elements \<open>2006\<close> (the year, four
  digits), \<open>01\<close> (the month, two digits), \<open>02\<close> (the day of the month, two digits) and
  characters that belong to no reference element, which are copied. In the reference
  time \<open>01\<close> is the month and \<open>02\<close> is the day.
\<close>

fun Format :: "Time \<Rightarrow> string \<Rightarrow> string" where
  "Format t [] = []"
| "Format t (c # cs) =
     (if take 4 (c # cs) = ''2006'' then appendInt (year t) 4 @ Format t (drop 3 cs)
      else if take 2 (c # cs) = ''01'' then appendInt (month t) 2 @ Format t (drop 1 cs)
      else if take 2 (c # cs) = ''02'' then appendInt (day t) 2 @ Format t (drop 1 cs)
      else c # Format t cs)"

section \<open>The cache (internal/cache)\<close>

text \<open>
  The Go map \<open>str\<close> is a map from IDs to entries: \<open>m(k \<mapsto> v)\<close> is the assignment
  \<open>m[k] = v\<close> and \<open>len(m)\<close> is the number of keys. A Go map has no order. The mutex
  \<open>mu\<close> orders the accesses to the map, so a locked section is one step.
\<close>

record Storage =
  str :: "int32 \<rightharpoonup> CacheStorageFormat"
  IDCounter :: int32

definition len :: "('k \<rightharpoonup> 'v) \<Rightarrow> nat" where
  "len m = card (dom m)"

definition New :: Storage where
  "New = \<lparr>str = Map.empty, IDCounter = 0\<rparr>"

definition cacheData_of :: "int32 \<Rightarrow> Result \<Rightarrow> CacheStorageFormat" where
  "cacheData_of id' val =
     \<lparr>csfAggregates = resAggregates val, csfParams = resParams val,
      csfProgram = resProgram val, csfID = id'\<rparr>"

text \<open>
  \<open>Load\<close> run alone: the counter is read, then incremented, then the entry is stored
  under the value read. (\<open>cacheData.MarshalJSON()\<close> discards its result.)
\<close>

definition Load :: "Storage \<Rightarrow> Result \<Rightarrow> Storage" where
  "Load s val =
     (let id' = IDCounter s;
          s1 = s\<lparr>IDCounter := IDCounter s + 1\<rparr>
      in s1\<lparr>str := (str s1)(id' \<mapsto> cacheData_of id' val)\<rparr>)"

text \<open>
  \<open>ReadAll\<close> allocates a slice of \<open>len(s.str)\<close> entries and fills it in the order in
  which \<open>range\<close> visits the map. Go leaves that order unspecified: it is the parameter
  \<open>ks\<close>, the keys in the order of the visit. \<open>range_order\<close> says what every such order
  satisfies: each key of the map is visited once.
\<close>

definition range_order :: "Storage \<Rightarrow> int32 list \<Rightarrow> bool" where
  "range_order s ks = (distinct ks \<and> set ks = dom (str s))"

definition ReadAll :: "int32 list \<Rightarrow> Storage \<Rightarrow> CacheStorageFormat list" where
  "ReadAll ks s = List.map_filter (str s) ks"

definition HasData :: "Storage \<Rightarrow> bool" where
  "HasData s = (len (str s) \<noteq> 0)"

text \<open>
  The values of the local variable \<open>id\<close> in successive calls of \<open>Load\<close>, one call for
  each result, in the order of the calls.
\<close>

fun Load_ids :: "Storage \<Rightarrow> Result list \<Rightarrow> int32 list" where
  "Load_ids s [] = []"
| "Load_ids s (val # vals) = IDCounter s # Load_ids (Load s val) vals"

text \<open>
  \<open>Load\<close> run by several goroutines. A call is at one of four places: before
  \<open>atomic.LoadInt32\<close>, before \<open>atomic.AddInt32\<close> (holding the \<open>id\<close> it read), before the
  locked assignment to the map, or returned. \<open>Load_step\<close> runs the next atomic action
  of a call; \<open>run\<close> runs the calls in the order a schedule names them.
\<close>

datatype load_pc = AtLoadInt32 | AtAddInt32 int32 | AtLock int32 | Returned

fun Load_step :: "Storage \<Rightarrow> Result \<times> load_pc \<Rightarrow> Storage \<times> (Result \<times> load_pc)" where
  "Load_step s (val, AtLoadInt32) = (s, (val, AtAddInt32 (IDCounter s)))"
| "Load_step s (val, AtAddInt32 id') = (s\<lparr>IDCounter := IDCounter s + 1\<rparr>, (val, AtLock id'))"
| "Load_step s (val, AtLock id') =
     (s\<lparr>str := (str s)(id' \<mapsto> cacheData_of id' val)\<rparr>, (val, Returned))"
| "Load_step s (val, Returned) = (s, (val, Returned))"

fun run :: "nat list \<Rightarrow> Storage \<times> (Result \<times> load_pc) list \<Rightarrow> Storage \<times> (Result \<times> load_pc) list" where
  "run [] c = c"
| "run (i # sched) (s, calls) =
     (if i < length calls
      then (let (s', call') = Load_step s (calls ! i) in run sched (s', calls[i := call']))
      else run sched (s, calls))"

section \<open>The handler (internal/handlers)\<close>

definition prepareResponse ::
  "Time \<Rightarrow> ExecuteReqeust \<Rightarrow> Program \<Rightarrow> uint8 \<Rightarrow> int32 \<Rightarrow> int32 \<Rightarrow> ExecuteResponse" where
  "prepareResponse now reqData program rate monthlyPayment overpayment =
     (let lastDate = Format (AddDate now (sint (reqMonths reqData))) ''2006-01-01''
      in \<lparr>Result =
            \<lparr>resAggregates =
               \<lparr>LastPaymentDate = lastDate,
                Rate = rate,
                LoanSum = reqObjectCost reqData - reqInitialPayment reqData,
                MonthlyPayment = monthlyPayment,
                Overpayment = overpayment\<rparr>,
             resParams =
               \<lparr>ObjectCost = reqObjectCost reqData,
                InitialPayment = reqInitialPayment reqData,
                Months = reqMonths reqData\<rparr>,
             resProgram = program\<rparr>\<rparr>)"

text \<open>
  What a handler writes: the status of \<open>WriteHeader\<close> and the value it encodes, or
  nothing at all.
\<close>

datatype body = ErrorMessage string | ResponseBody ExecuteResponse

datatype reply = Reply nat "body option" | NoReply

definition programValidatorErrorHandler :: "error \<Rightarrow> body option" where
  "programValidatorErrorHandler err =
     (if err = ErrNoTrueValues then Some (ErrorMessage ''choose program'')
      else if err = ErrMoreThanOneTrue then Some (ErrorMessage ''choose only 1 program'')
      else None)"

text \<open>
  \<open>Execute\<close>: the request is its method and the decoded body (\<open>None\<close> when the decoder
  fails); \<open>now\<close> is \<open>time.Now()\<close>; the store is passed in and returned.
\<close>

definition Execute ::
  "(float64 \<Rightarrow> int32) \<Rightarrow> Time \<Rightarrow> Storage \<Rightarrow> string \<Rightarrow> ExecuteReqeust option
     \<Rightarrow> Storage \<times> reply" where
  "Execute impl now store method decoded =
     (if method \<noteq> ''POST''
      then (store, Reply 405 (Some (ErrorMessage ''only post method allowed'')))
      else case decoded of
        None \<Rightarrow> (store, NoReply)
      | Some reqData \<Rightarrow>
          (if \<not> initialPaymentValidator (reqObjectCost reqData) (reqInitialPayment reqData)
           then (store, Reply 400 (Some (ErrorMessage ''the initial payment should be more'')))
           else (case programValidator reqData of
              Inl err \<Rightarrow> (store, Reply 400 (programValidatorErrorHandler err))
            | Inr loanProgram \<Rightarrow>
                (let (rate, program) = getLoanRateAndProgram loanProgram;
                     (monthlyPayment, overpayment) =
                        monthlyPaymentCalculator impl
                          (float64_of_int32 (reqObjectCost reqData - reqInitialPayment reqData))
                          (float64_of_uint8 rate) (reqMonths reqData);
                     resp = prepareResponse now reqData program rate monthlyPayment overpayment
                 in (Load store (Result resp), Reply 200 (Some (ResponseBody resp)))))))"

section \<open>Fixtures\<close>

text \<open>The request of the handler test and of the end-to-end example.\<close>

definition fixture_request :: ExecuteReqeust where
  "fixture_request =
     \<lparr>reqObjectCost = 100000, reqInitialPayment = 20000, reqMonths = 12,
      reqProgram = Program_zero\<lparr>Base := True\<rparr>\<rparr>"

text \<open>A current date: 15 March 2024.\<close>

definition fixture_now :: Time where
  "fixture_now = \<lparr>year = 2024, month = 3, day = 15\<rparr>"

text \<open>The aggregates a reply carries, when it carries a result.\<close>

definition reply_aggregates :: "reply \<Rightarrow> Aggregates option" where
  "reply_aggregates r =
     (case r of
        Reply c (Some (ResponseBody resp)) \<Rightarrow> Some (resAggregates (Result resp))
      | _ \<Rightarrow> None)"

text \<open>The result that the cache tests insert.\<close>

definition fixture_result :: Result where
  "fixture_result =
     \<lparr>resAggregates =
        \<lparr>LastPaymentDate = ''2024-01-01'', Rate = 10, LoanSum = 80000,
         MonthlyPayment = 8792, Overpayment = 5504\<rparr>,
      resParams = \<lparr>ObjectCost = 100000, InitialPayment = 20000, Months = 12\<rparr>,
      resProgram = Program_zero\<lparr>Base := True\<rparr>\<rparr>"

text \<open>Requests that fail a validation, and one with a term of zero months.\<close>

definition low_payment_request :: ExecuteReqeust where
  "low_payment_request = fixture_request\<lparr>reqInitialPayment := 19999\<rparr>"

definition no_program_request :: ExecuteReqeust where
  "no_program_request = fixture_request\<lparr>reqProgram := Program_zero\<rparr>"

definition two_programs_request :: ExecuteReqeust where
  "two_programs_request =
     fixture_request\<lparr>reqProgram := Program_zero\<lparr>Base := True, Military := True\<rparr>\<rparr>"

definition zero_months_request :: ExecuteReqeust where
  "zero_months_request = fixture_request\<lparr>reqMonths := 0\<rparr>"

section \<open>The specification's formulas\<close>



text \<open>
  The down payment rule on the integers: false if the initial payment exceeds the cost,
  if both are zero, if the initial payment is zero, or if five times the initial
  payment is less than the cost (the down payment is below 20% of the cost); true
  otherwise.
\<close>

definition validateDownPayment :: "int \<Rightarrow> int \<Rightarrow> bool" where
  "validateDownPayment objectCost initialPayment =
     (\<not> (objectCost < initialPayment
         \<or> (objectCost = 0 \<and> initialPayment = 0)
         \<or> initialPayment = 0
         \<or> initialPayment * 5 < objectCost))"

section \<open>Helper facts\<close>

lemma calc_80000:
  "monthlyPaymentCalculator impl (Finite 80000) (Finite 10) 12 = (7034, 4408)"
  by code_simp

lemma calc_45000:
  "monthlyPaymentCalculator impl (Finite 45000) (Finite 5) 6 = (7610, 660)"
  by code_simp

lemma calc_100000:
  "monthlyPaymentCalculator impl (Finite 100000) (Finite 10) 12 = (8792, 5504)"
  by code_simp

lemma calc_50000:
  "monthlyPaymentCalculator impl (Finite 50000) (Finite 5) 6 = (8456, 736)"
  by code_simp

lemma programValidator_fixture: "programValidator fixture_request = Inr ''base''"
  by (simp add: programValidator_def fixture_request_def Program_zero_def)

lemma initialPaymentValidator_fixture: "initialPaymentValidator 100000 20000"
  by (simp add: initialPaymentValidator_def)

lemma Execute_fixture:
  "Execute impl now store ''POST'' (Some fixture_request) =
     (Load store (Result (prepareResponse now fixture_request
                            (Program_zero\<lparr>Base := True\<rparr>) 10 7034 4408)),
      Reply 200 (Some (ResponseBody (prepareResponse now fixture_request
                            (Program_zero\<lparr>Base := True\<rparr>) 10 7034 4408))))"
  unfolding Execute_def
  by (simp add: programValidator_fixture getLoanRateAndProgram_def float64_of_int32_def
        float64_of_uint8_def)
     (simp add: fixture_request_def initialPaymentValidator_fixture calc_80000 Let_def)

lemma aggregates_fixture:
  "resAggregates (Result (prepareResponse now fixture_request p 10 7034 4408)) =
     \<lparr>LastPaymentDate = Format (AddDate now 12) ''2006-01-01'',
      Rate = 10, LoanSum = 80000, MonthlyPayment = 7034, Overpayment = 4408\<rparr>"
  by (simp add: prepareResponse_def fixture_request_def Let_def)

lemma Format_layout:
  "Format t ''2006-01-01'' = appendInt (year t) 4 @ ''-'' @ appendInt (month t) 2 @ ''-'' @ appendInt (month t) 2"
  by simp

lemma Format_iso:
  "Format t ''2006-01-02'' = appendInt (year t) 4 @ ''-'' @ appendInt (month t) 2 @ ''-'' @ appendInt (day t) 2"
  by simp

lemma AddDate_fixture: "AddDate fixture_now 12 = \<lparr>year = 2025, month = 3, day = 15\<rparr>"
  by (simp add: AddDate_def fixture_now_def daysIn_def Let_def)

lemma appendInt_2025: "appendInt 2025 4 = ''2025''"
  by (simp add: appendInt_def digits.simps digit_def Let_def)

lemma appendInt_3: "appendInt 3 2 = ''03''"
  by (simp add: appendInt_def digits.simps digit_def Let_def)

lemma appendInt_15: "appendInt 15 2 = ''15''"
  by (simp add: appendInt_def digits.simps digit_def Let_def)

lemma signed_inf_scale: "0 < c \<Longrightarrow> signed_inf (a * c) = signed_inf a"
  by (simp add: signed_inf_def zero_less_mult_iff mult_less_0_iff)

lemma factor_zero_months: "factor_of loanRate 0 = Finite 1"
  by (simp add: factor_of_def Pow_def)

lemma denominator_zero_months: "fsub (factor_of loanRate 0) (Finite 1) = Finite 0"
  by (simp add: factor_zero_months fsub_def)

lemma Ceil_signed_inf: "Ceil (signed_inf a) = signed_inf a"
  by (simp add: Ceil_def signed_inf_def)

lemma int32_of_signed_inf: "int32_of_float64 impl (signed_inf a) = impl (signed_inf a)"
  by (simp add: int32_of_float64_def signed_inf_def)

lemma monthlyPayment_zero_months:
  assumes "0 < r"
  shows "fst (monthlyPaymentCalculator impl (Finite a) (Finite r) 0) = impl (signed_inf a)"
proof -
  have "signed_inf (a * (r / 1200)) = signed_inf a"
    using assms by (intro signed_inf_scale) simp
  then have s: "signed_inf (a * r / 1200) = signed_inf a"
    by simp
  show ?thesis
    unfolding monthlyPaymentCalculator_def Let_def
    by (simp add: factor_zero_months monthlyRate_of_def fsub_def
          Ceil_signed_inf int32_of_signed_inf s)
qed

lemma getLoanRateAndProgram_valid:
  assumes "programValidator reqData = Inr name"
  shows "0 < uint (fst (getLoanRateAndProgram name))"
  using assms
  by (auto simp: programValidator_def getLoanRateAndProgram_def Let_def split: if_splits)

lemma programValidator_flags:
  "flags_set (reqProgram d) = 1 \<Longrightarrow> \<exists>name. programValidator d = Inr name"
  by (simp add: programValidator_def flags_set_def split: if_splits)

lemma IDCounter_Load: "IDCounter (Load s val) = IDCounter s + 1"
  by (simp add: Load_def Let_def)

lemma str_Load: "str (Load s val) = (str s)(IDCounter s \<mapsto> cacheData_of (IDCounter s) val)"
  by (simp add: Load_def Let_def)

lemma IDCounter_foldl_Load:
  "IDCounter (foldl Load s rs) = IDCounter s + word_of_nat (length rs)"
  by (induction rs arbitrary: s) (simp_all add: IDCounter_Load)

lemma Load_ids_eq:
  "Load_ids s rs = map (\<lambda>i. IDCounter s + word_of_nat i) [0..<length rs]"
proof (induction rs arbitrary: s)
  case Nil
  show ?case by simp
next
  case (Cons r rs)
  have "map (\<lambda>i. IDCounter s + word_of_nat i) [0..<length (r # rs)] =
          (IDCounter s + word_of_nat 0) #
            map (\<lambda>i. IDCounter s + word_of_nat (Suc i)) [0..<length rs]"
    by (simp only: length_Cons map_upt_Suc)
  also have "\<dots> = IDCounter s # map (\<lambda>i. IDCounter (Load s r) + word_of_nat i) [0..<length rs]"
    by (simp add: IDCounter_Load add.assoc)
  finally show ?case
    by (simp only: Load_ids.simps Cons.IH)
qed

lemma Load_ids_New: "Load_ids New rs = map word_of_nat [0..<length rs]"
  by (simp add: Load_ids_eq New_def)

lemma unat_word_of_nat_small: "n < 2 ^ 32 \<Longrightarrow> unat (word_of_nat n :: int32) = n"
  by (simp add: unsigned_of_nat take_bit_nat_eq_self)

lemma str_foldl_Load_New:
  "length rs \<le> 2 ^ 32 \<Longrightarrow>
     str (foldl Load New rs) =
       (\<lambda>k. if unat k < length rs then Some (cacheData_of k (rs ! unat k)) else None)"
proof (induction rs rule: rev_induct)
  case Nil
  show ?case by (simp add: New_def)
next
  case (snoc r rs)
  then have n: "length rs < 2 ^ 32" by simp
  with snoc have IH: "str (foldl Load New rs) =
      (\<lambda>k. if unat k < length rs then Some (cacheData_of k (rs ! unat k)) else None)"
    by simp
  have c: "IDCounter (foldl Load New rs) = word_of_nat (length rs)"
    by (simp add: IDCounter_foldl_Load New_def)
  have u: "unat (word_of_nat (length rs) :: int32) = length rs"
    by (rule unat_word_of_nat_small [OF n])
  have "foldl Load New (rs @ [r]) = Load (foldl Load New rs) r"
    by simp
  then have "str (foldl Load New (rs @ [r])) =
      (str (foldl Load New rs))(word_of_nat (length rs) \<mapsto> cacheData_of (word_of_nat (length rs)) r)"
    by (simp only: str_Load c)
  also have "\<dots> = (\<lambda>k. if unat k < length (rs @ [r])
        then Some (cacheData_of k ((rs @ [r]) ! unat k)) else None)"
  proof (rule ext)
    fix k :: int32
    consider "unat k < length rs" | "unat k = length rs" | "length rs < unat k"
      by linarith
    then show "((str (foldl Load New rs))(word_of_nat (length rs) \<mapsto>
          cacheData_of (word_of_nat (length rs)) r)) k =
        (if unat k < length (rs @ [r]) then Some (cacheData_of k ((rs @ [r]) ! unat k)) else None)"
    proof cases
      case 1
      then have "k \<noteq> word_of_nat (length rs)" using u by auto
      with 1 show ?thesis by (simp add: IH nth_append)
    next
      case 2
      moreover have "k = word_of_nat (unat k)" by simp
      ultimately have "k = word_of_nat (length rs)" by simp
      with 2 show ?thesis by (simp add: nth_append u)
    next
      case 3
      then have "k \<noteq> word_of_nat (length rs)" using u by auto
      with 3 show ?thesis by (simp add: IH)
    qed
  qed
  finally show ?case .
qed

lemma dom_foldl_Load_New:
  assumes "length rs \<le> 2 ^ 32"
  shows "dom (str (foldl Load New rs)) = word_of_nat ` {0..<length rs}"
proof -
  have "dom (str (foldl Load New rs)) = {k. unat k < length rs}"
    by (auto simp: str_foldl_Load_New [OF assms] dom_def)
  also have "\<dots> = word_of_nat ` {0..<length rs}"
  proof (rule set_eqI)
    fix k :: int32
    show "k \<in> {k. unat k < length rs} \<longleftrightarrow> k \<in> word_of_nat ` {0..<length rs}"
    proof
      assume "k \<in> {k. unat k < length rs}"
      then have "unat k \<in> {0..<length rs}" by simp
      moreover have "k = word_of_nat (unat k)" by simp
      ultimately show "k \<in> word_of_nat ` {0..<length rs}" by (rule rev_image_eqI)
    next
      assume "k \<in> word_of_nat ` {0..<length rs}"
      then obtain i where i: "i < length rs" "k = word_of_nat i" by auto
      with assms have "i < 2 ^ 32" by simp
      with i show "k \<in> {k. unat k < length rs}" by (simp add: unat_word_of_nat_small)
    qed
  qed
  finally show ?thesis .
qed

lemma inj_on_word_of_nat:
  assumes "n \<le> 2 ^ 32"
  shows "inj_on (word_of_nat :: nat \<Rightarrow> int32) {0..<n}"
proof (rule inj_onI)
  fix i j assume "i \<in> {0..<n}" "j \<in> {0..<n}" "(word_of_nat i :: int32) = word_of_nat j"
  with assms have "i < 2 ^ 32" "j < 2 ^ 32" "unat (word_of_nat i :: int32) = unat (word_of_nat j :: int32)"
    by simp_all
  then show "i = j" by (simp add: unat_word_of_nat_small)
qed

lemma len_foldl_Load_New:
  assumes "length rs \<le> 2 ^ 32"
  shows "len (str (foldl Load New rs)) = length rs"
  unfolding len_def dom_foldl_Load_New [OF assms]
  by (simp add: card_image inj_on_word_of_nat [OF assms])

lemma sint_word_of_nat_small:
  "n < 2 ^ 31 \<Longrightarrow> sint (word_of_nat n :: int32) = int n"
  by (simp add: signed_of_nat signed_take_bit_int_eq_self)

lemma sorted_ids:
  assumes "n \<le> 2 ^ 31"
  shows "sorted_wrt (<s) (map word_of_nat [0..<n] :: int32 list)"
proof -
  have "(word_of_nat i :: int32) <s word_of_nat j" if "i < j" "j < n" for i j
  proof -
    from that assms have "i < 2 ^ 31" "j < 2 ^ 31" by simp_all
    then show ?thesis using that(1) by (simp add: word_sless_alt sint_word_of_nat_small)
  qed
  then show ?thesis
    by (simp add: sorted_wrt_iff_nth_less)
qed

lemma distinct_ids:
  assumes "n \<le> 2 ^ 32"
  shows "distinct (map word_of_nat [0..<n] :: int32 list)"
  by (simp add: distinct_map inj_on_word_of_nat [OF assms])

lemma ReadAll_range_order:
  assumes "range_order s ks"
    and "\<And>k e. str s k = Some e \<Longrightarrow> csfID e = k"
  shows "length (ReadAll ks s) = len (str s)" and "map csfID (ReadAll ks s) = ks"
proof -
  from assms(1) have d: "distinct ks" and k: "set ks = dom (str s)"
    by (simp_all add: range_order_def)
  have all: "\<forall>x \<in> set ks. str s x \<noteq> None"
    using k by auto
  then have f: "filter (\<lambda>x. str s x \<noteq> None) ks = ks"
    by (simp add: filter_id_conv)
  have "ReadAll ks s = map (the \<circ> str s) (filter (\<lambda>x. str s x \<noteq> None) ks)"
    unfolding ReadAll_def by (rule map_filter_def)
  then have ra: "ReadAll ks s = map (the \<circ> str s) ks"
    by (simp only: f)
  have "length (ReadAll ks s) = length ks"
    by (simp only: ra length_map)
  also have "\<dots> = card (set ks)"
    using d by (simp add: distinct_card)
  finally show "length (ReadAll ks s) = len (str s)"
    by (simp add: k len_def)
  have "map csfID (ReadAll ks s) = map (\<lambda>x. csfID (the (str s x))) ks"
    by (simp add: ra comp_def)
  also have "\<dots> = map (\<lambda>x. x) ks"
  proof (rule map_cong [OF refl])
    fix x assume "x \<in> set ks"
    with all obtain e where "str s x = Some e" by auto
    with assms(2) show "csfID (the (str s x)) = x" by simp
  qed
  finally show "map csfID (ReadAll ks s) = ks" by simp
qed

lemma HasData_Load: "HasData (Load s val)"
proof -
  have "finite (dom (str (Load s val)))" by simp
  moreover have "IDCounter s \<in> dom (str (Load s val))" by (simp add: str_Load)
  ultimately have "card (dom (str (Load s val))) \<noteq> 0" by auto
  then show ?thesis by (simp add: HasData_def len_def)
qed

lemma csfID_foldl_Load_New:
  assumes "length rs \<le> 2 ^ 32" and "str (foldl Load New rs) k = Some e"
  shows "csfID e = k"
  using assms(2) unfolding str_foldl_Load_New [OF assms(1)]
  by (auto simp: cacheData_of_def split: if_splits)

lemma sint_wrap: "sint (word_of_nat (2 ^ 31) :: int32) = - (2 ^ 31)"
  by simp

lemma unat_wrap: "unat (- (2 ^ 31) :: int32) = 2 ^ 31"
  by simp

lemma wrapped_ids:
  assumes "2 ^ 31 < length rs" and "length rs \<le> 2 ^ 32"
  shows "sint (Load_ids New rs ! (2 ^ 31)) = - (2 ^ 31)"
    and "\<not> sorted_wrt (<s) (Load_ids New rs)"
    and "map_option csfID (str (foldl Load New rs) (- (2 ^ 31))) = Some (- (2 ^ 31))"
proof -
  note ids = Load_ids_New [of rs]
  from assms(1) have "2 ^ 31 < length rs - 0" by linarith
  then have "map word_of_nat [0..<length rs] ! (2 ^ 31) = (word_of_nat (0 + 2 ^ 31) :: int32)"
    by (rule nth_map_upt)
  then have wrap: "Load_ids New rs ! (2 ^ 31) = word_of_nat (2 ^ 31)"
    by (simp only: ids add_0)
  show "sint (Load_ids New rs ! (2 ^ 31)) = - (2 ^ 31)"
    by (simp only: wrap sint_wrap)
  from assms(1) have "0 < length rs - 0" by linarith
  then have "map word_of_nat [0..<length rs] ! 0 = (word_of_nat (0 + 0) :: int32)"
    by (rule nth_map_upt)
  then have first: "Load_ids New rs ! 0 = 0"
    unfolding ids by simp
  show "\<not> sorted_wrt (<s) (Load_ids New rs)"
  proof
    assume "sorted_wrt (<s) (Load_ids New rs)"
    then have "Load_ids New rs ! 0 <s Load_ids New rs ! (2 ^ 31)"
    proof (rule sorted_wrt_nth_less)
      show "(0 :: nat) < 2 ^ 31" by simp
      show "2 ^ 31 < length (Load_ids New rs)"
        using assms(1) unfolding ids by (simp only: length_map length_upt minus_nat.diff_0)
    qed
    then have "(0 :: int32) <s word_of_nat (2 ^ 31)"
      by (simp only: first wrap)
    then show False
      by (simp add: word_sless_alt)
  qed
  have "str (foldl Load New rs) (- (2 ^ 31)) =
      Some (cacheData_of (- (2 ^ 31)) (rs ! unat (- (2 ^ 31) :: int32)))"
    using assms(1) by (simp only: str_foldl_Load_New [OF assms(2)] unat_wrap if_True)
  then show "map_option csfID (str (foldl Load New rs) (- (2 ^ 31))) = Some (- (2 ^ 31))"
    by (simp only: option.map cacheData_of_def CacheStorageFormat.simps)
qed

lemma run_alone: "run [0, 0, 0] (s, [(v, AtLoadInt32)]) = (Load s v, [(v, Returned)])"
  by (simp add: Load_def Let_def)







lemma initialPaymentValidator_no_overflow:
  assumes "- (2 ^ 31) \<le> sint initialPayment * 5" and "sint initialPayment * 5 < 2 ^ 31"
  shows "initialPaymentValidator objectCost initialPayment =
           validateDownPayment (sint objectCost) (sint initialPayment)"
proof -
  have "sint (initialPayment * 5) = sint initialPayment * 5"
    using assms by (simp add: sint_word_ariths signed_take_bit_int_eq_self)
  then show ?thesis
    by (auto simp: initialPaymentValidator_def validateDownPayment_def word_sless_alt
          signed_eq_0_iff)
qed

section \<open>Validation of the initial payment\<close>

text \<open>
  C5: the five listed pairs give false, false, true, false, false. The rule of the claim
  does not hold for every pair: at the cost 2000000000 and the initial payment
  500000000 none of the four conditions holds (the initial payment is 25% of the cost),
  so the rule gives true, and \<open>initialPaymentValidator\<close> returns false.
\<close>

theorem initialPaymentValidator_rejects_valid:
  "initialPaymentValidator 0 0 = False
   \<and> initialPaymentValidator 100000 0 = False
   \<and> initialPaymentValidator 100000 20000 = True
   \<and> initialPaymentValidator 100000 19999 = False
   \<and> initialPaymentValidator 100000 150000 = False
   \<and> validateDownPayment 2000000000 500000000 = True
   \<and> initialPaymentValidator 2000000000 500000000 = False"
  by (simp add: initialPaymentValidator_def validateDownPayment_def)

text \<open>
  C9: the cost 2000000000 with the initial payment 500000000 satisfies
  \<open>0 < initialPayment \<le> objectCost\<close> and \<open>5 * initialPayment \<ge> objectCost\<close> on the
  integers, and the validator returns false: the \<open>int32\<close> product
  \<open>500000000 * 5\<close> wraps around to \<open>-1794967296\<close>.
\<close>

theorem initialPaymentValidator_overflow:
  "initialPaymentValidator 2000000000 500000000 = False
   \<and> 0 < sint (500000000 :: int32)
   \<and> sint (500000000 :: int32) \<le> sint (2000000000 :: int32)
   \<and> 5 * sint (500000000 :: int32) \<ge> sint (2000000000 :: int32)
   \<and> sint ((500000000 :: int32) * 5) = - 1794967296"
  by (simp add: initialPaymentValidator_def)

section \<open>Validation of the program\<close>

text \<open>
  C6: \<open>programValidator\<close> fails with \<open>ErrNoTrueValues\<close> exactly when none of the flags
  base, military, salary is set, fails with \<open>ErrMoreThanOneTrue\<close> exactly when more than
  one is set, and when exactly one is set it returns the name of that program and no
  error.
\<close>

theorem programValidator_spec:
  "(programValidator d = Inl ErrNoTrueValues \<longleftrightarrow> flags_set (reqProgram d) = 0)
   \<and> (programValidator d = Inl ErrMoreThanOneTrue \<longleftrightarrow> 1 < flags_set (reqProgram d))
   \<and> (Base (reqProgram d) \<and> \<not> Military (reqProgram d) \<and> \<not> Salary (reqProgram d)
        \<longrightarrow> programValidator d = Inr ''base'')
   \<and> (\<not> Base (reqProgram d) \<and> Military (reqProgram d) \<and> \<not> Salary (reqProgram d)
        \<longrightarrow> programValidator d = Inr ''military'')
   \<and> (\<not> Base (reqProgram d) \<and> \<not> Military (reqProgram d) \<and> Salary (reqProgram d)
        \<longrightarrow> programValidator d = Inr ''salary'')
   \<and> (flags_set (reqProgram d) = 1 \<longleftrightarrow> (\<exists>name. programValidator d = Inr name))"
  by (simp add: programValidator_def flags_set_def)

theorem programValidator_spec_witness:
  "Base (reqProgram fixture_request) \<and> \<not> Military (reqProgram fixture_request)
   \<and> \<not> Salary (reqProgram fixture_request)
   \<and> flags_set (reqProgram fixture_request) = 1
   \<and> programValidator fixture_request = Inr ''base''"
proof -
  have flags: "Base (reqProgram fixture_request) \<and> \<not> Military (reqProgram fixture_request)
      \<and> \<not> Salary (reqProgram fixture_request)"
    by (simp add: fixture_request_def Program_zero_def)
  have one: "flags_set (reqProgram fixture_request) = 1"
    by (simp add: flags_set_def fixture_request_def Program_zero_def)
  from programValidator_spec [of fixture_request] flags
  have "programValidator fixture_request = Inr ''base''"
    by blast
  with flags one show ?thesis
    by blast
qed

section \<open>The values of the annuity calculator\<close>

text \<open>
  C4, as amended: \<open>monthlyPaymentCalculator(80000, 10, 12) = (7034, 4408)\<close> and
  \<open>monthlyPaymentCalculator(45000, 5, 6) = (7610, 660)\<close>; the pairs \<open>(8792, 5504)\<close> and
  \<open>(8456, 736)\<close> are the results for the principals 100000 and 50000. The request with
  cost 100000, initial payment 20000, 12 months and the base program is answered with
  status 200 and a result with rate 10, loan sum 80000, monthly payment 7034 and
  overpayment 4408.
\<close>

theorem monthlyPaymentCalculator_values:
  "monthlyPaymentCalculator impl (Finite 80000) (Finite 10) 12 = (7034, 4408)
   \<and> monthlyPaymentCalculator impl (Finite 45000) (Finite 5) 6 = (7610, 660)
   \<and> monthlyPaymentCalculator impl (Finite 100000) (Finite 10) 12 = (8792, 5504)
   \<and> monthlyPaymentCalculator impl (Finite 50000) (Finite 5) 6 = (8456, 736)
   \<and> reply_aggregates (snd (Execute impl now store ''POST'' (Some fixture_request))) =
       Some \<lparr>LastPaymentDate = Format (AddDate now 12) ''2006-01-01'',
             Rate = 10, LoanSum = 80000, MonthlyPayment = 7034, Overpayment = 4408\<rparr>"
  by (simp add: calc_80000 calc_45000 calc_100000 calc_50000 Execute_fixture
        reply_aggregates_def aggregates_fixture)

text \<open>
  The claim as stated fails: the principal 80000 does not give \<open>(8792, 5504)\<close>, the
  principal 45000 does not give \<open>(8456, 736)\<close>, and the monthly payment of the
  end-to-end request is not 8792.
\<close>

theorem monthlyPaymentCalculator_values_counterexample:
  "monthlyPaymentCalculator int32_indefinite (Finite 80000) (Finite 10) 12 \<noteq> (8792, 5504)
   \<and> monthlyPaymentCalculator int32_indefinite (Finite 45000) (Finite 5) 6 \<noteq> (8456, 736)
   \<and> map_option MonthlyPayment
        (reply_aggregates (snd (Execute int32_indefinite fixture_now New ''POST''
           (Some fixture_request)))) \<noteq> Some 8792"
  by (simp add: calc_80000 calc_45000 Execute_fixture reply_aggregates_def aggregates_fixture)

section \<open>The annuity formula\<close>




section \<open>Failed validations leave the cache alone\<close>

text \<open>
  C7: when a request fails validation (the initial payment is insufficient, no program
  is selected, or several programs are selected), \<open>Execute\<close> returns the store it was
  given: the entries and the ID counter are the ones before the request. The reply
  carries no result (no annuity was computed), and for a POST it is status 400 with
  one of the three error messages.
\<close>

theorem Execute_invalid_unchanged:
  assumes "\<not> initialPaymentValidator (reqObjectCost reqData) (reqInitialPayment reqData)
           \<or> programValidator reqData = Inl ErrNoTrueValues
           \<or> programValidator reqData = Inl ErrMoreThanOneTrue"
  shows "fst (Execute impl now store method (Some reqData)) = store
         \<and> str (fst (Execute impl now store method (Some reqData))) = str store
         \<and> IDCounter (fst (Execute impl now store method (Some reqData))) = IDCounter store
         \<and> reply_aggregates (snd (Execute impl now store method (Some reqData))) = None
         \<and> (method = ''POST'' \<longrightarrow>
              snd (Execute impl now store method (Some reqData)) \<in>
                {Reply 400 (Some (ErrorMessage ''the initial payment should be more'')),
                 Reply 400 (Some (ErrorMessage ''choose program'')),
                 Reply 400 (Some (ErrorMessage ''choose only 1 program''))})"
  using assms
  by (auto simp: Execute_def reply_aggregates_def programValidatorErrorHandler_def split: sum.splits)

theorem Execute_invalid_unchanged_witness:
  "\<not> initialPaymentValidator (reqObjectCost low_payment_request)
        (reqInitialPayment low_payment_request)
   \<and> fst (Execute int32_indefinite fixture_now (Load New fixture_result) ''POST''
            (Some low_payment_request)) = Load New fixture_result
   \<and> programValidator no_program_request = Inl ErrNoTrueValues
   \<and> fst (Execute int32_indefinite fixture_now (Load New fixture_result) ''POST''
            (Some no_program_request)) = Load New fixture_result
   \<and> programValidator two_programs_request = Inl ErrMoreThanOneTrue
   \<and> fst (Execute int32_indefinite fixture_now (Load New fixture_result) ''POST''
            (Some two_programs_request)) = Load New fixture_result"
proof -
  have low: "\<not> initialPaymentValidator (reqObjectCost low_payment_request)
      (reqInitialPayment low_payment_request)"
    by (simp add: low_payment_request_def fixture_request_def initialPaymentValidator_def)
  have none: "programValidator no_program_request = Inl ErrNoTrueValues"
    by (simp add: no_program_request_def fixture_request_def programValidator_def Program_zero_def)
  have two: "programValidator two_programs_request = Inl ErrMoreThanOneTrue"
    by (simp add: two_programs_request_def fixture_request_def programValidator_def Program_zero_def)
  from low have 1: "fst (Execute int32_indefinite fixture_now (Load New fixture_result) ''POST''
            (Some low_payment_request)) = Load New fixture_result"
    using Execute_invalid_unchanged [of low_payment_request] by blast
  from none have 2: "fst (Execute int32_indefinite fixture_now (Load New fixture_result) ''POST''
            (Some no_program_request)) = Load New fixture_result"
    using Execute_invalid_unchanged [of no_program_request] by blast
  from two have 3: "fst (Execute int32_indefinite fixture_now (Load New fixture_result) ''POST''
            (Some two_programs_request)) = Load New fixture_result"
    using Execute_invalid_unchanged [of two_programs_request] by blast
  from low none two 1 2 3 show ?thesis
    by (intro conjI)
qed

section \<open>A term of zero months\<close>

text \<open>
  C10: neither \<open>Execute\<close> nor \<open>monthlyPaymentCalculator\<close> checks the term. For every
  request with \<open>months = 0\<close>, a sufficient initial payment and exactly one program flag,
  the denominator \<open>factor - 1\<close> of the payment formula is 0 and the monthly payment is
  what the implementation makes of the conversion of an infinity or a \<open>NaN\<close>; no error
  is produced: the reply is status 200 with the result, and the entry is inserted into
  the cache under the current value of the counter.
\<close>

theorem Execute_zero_months:
  assumes "reqMonths reqData = 0"
    and "initialPaymentValidator (reqObjectCost reqData) (reqInitialPayment reqData)"
    and "flags_set (reqProgram reqData) = 1"
  shows "\<exists>resp.
           Execute impl now store ''POST'' (Some reqData) =
             (Load store (Result resp), Reply 200 (Some (ResponseBody resp)))
         \<and> Months (resParams (Result resp)) = 0
         \<and> MonthlyPayment (resAggregates (Result resp)) =
             impl (signed_inf (of_int (sint (reqObjectCost reqData - reqInitialPayment reqData))))
         \<and> fsub (factor_of (float64_of_uint8 (Rate (resAggregates (Result resp))))
                   (reqMonths reqData)) (Finite 1) = Finite 0
         \<and> str (fst (Execute impl now store ''POST'' (Some reqData))) (IDCounter store) =
             Some (cacheData_of (IDCounter store) (Result resp))
         \<and> HasData (fst (Execute impl now store ''POST'' (Some reqData)))"
proof -
  from assms(3) obtain name where name: "programValidator reqData = Inr name"
    using programValidator_flags by blast
  obtain rate program where rp: "getLoanRateAndProgram name = (rate, program)"
    by (cases "getLoanRateAndProgram name")
  from getLoanRateAndProgram_valid [OF name] rp have rate: "0 < uint rate"
    by simp
  define loan where "loan = reqObjectCost reqData - reqInitialPayment reqData"
  obtain mp ov where calc:
    "monthlyPaymentCalculator impl (float64_of_int32 loan) (float64_of_uint8 rate) 0 = (mp, ov)"
    by (cases "monthlyPaymentCalculator impl (float64_of_int32 loan) (float64_of_uint8 rate) 0")
  define resp where "resp = prepareResponse now reqData program rate mp ov"
  have ex: "Execute impl now store ''POST'' (Some reqData) =
      (Load store (Result resp), Reply 200 (Some (ResponseBody resp)))"
    using assms(1,2) name rp calc
    by (simp add: Execute_def loan_def resp_def Let_def)
  have months: "Months (resParams (Result resp)) = 0"
    using assms(1) by (simp add: resp_def prepareResponse_def Let_def)
  have rpos: "(0 :: rat) < of_int (uint rate)"
    using rate by (simp only: of_int_0_less_iff)
  have "mp = fst (monthlyPaymentCalculator impl (Finite (of_int (sint loan)))
                    (Finite (of_int (uint rate))) 0)"
    using calc by (simp only: float64_of_int32_def float64_of_uint8_def fst_conv)
  also have "\<dots> = impl (signed_inf (of_int (sint loan)))"
    by (rule monthlyPayment_zero_months [OF rpos])
  finally have mp: "MonthlyPayment (resAggregates (Result resp)) =
      impl (signed_inf (of_int (sint (reqObjectCost reqData - reqInitialPayment reqData))))"
    by (simp add: resp_def prepareResponse_def Let_def loan_def)
  have den: "fsub (factor_of (float64_of_uint8 (Rate (resAggregates (Result resp))))
      (reqMonths reqData)) (Finite 1) = Finite 0"
    by (simp only: assms(1) denominator_zero_months)
  have mem: "str (fst (Execute impl now store ''POST'' (Some reqData))) (IDCounter store) =
      Some (cacheData_of (IDCounter store) (Result resp))"
    by (simp add: ex str_Load)
  have has: "HasData (fst (Execute impl now store ''POST'' (Some reqData)))"
    by (simp add: ex HasData_Load)
  from ex months mp den mem has show ?thesis
    by blast
qed

theorem Execute_zero_months_witness:
  "reqMonths zero_months_request = 0
   \<and> initialPaymentValidator (reqObjectCost zero_months_request)
         (reqInitialPayment zero_months_request)
   \<and> flags_set (reqProgram zero_months_request) = 1
   \<and> (\<exists>resp.
          Execute int32_indefinite fixture_now New ''POST'' (Some zero_months_request) =
            (Load New (Result resp), Reply 200 (Some (ResponseBody resp)))
        \<and> MonthlyPayment (resAggregates (Result resp)) = - (2 ^ 31))
   \<and> HasData (fst (Execute int32_indefinite fixture_now New ''POST''
         (Some zero_months_request)))"
proof -
  have months: "reqMonths zero_months_request = 0"
    by (simp add: zero_months_request_def)
  have payment: "initialPaymentValidator (reqObjectCost zero_months_request)
      (reqInitialPayment zero_months_request)"
    by (simp add: zero_months_request_def fixture_request_def initialPaymentValidator_def)
  have flags: "flags_set (reqProgram zero_months_request) = 1"
    by (simp add: zero_months_request_def fixture_request_def flags_set_def Program_zero_def)
  from Execute_zero_months [OF months payment flags, of int32_indefinite fixture_now New]
  obtain resp where
    ex: "Execute int32_indefinite fixture_now New ''POST'' (Some zero_months_request) =
           (Load New (Result resp), Reply 200 (Some (ResponseBody resp)))"
    and mp: "MonthlyPayment (resAggregates (Result resp)) =
           int32_indefinite (signed_inf (of_int (sint (reqObjectCost zero_months_request
              - reqInitialPayment zero_months_request))))"
    and has: "HasData (fst (Execute int32_indefinite fixture_now New ''POST''
           (Some zero_months_request)))"
    by blast
  from mp have "MonthlyPayment (resAggregates (Result resp)) = - (2 ^ 31)"
    by (simp only: int32_indefinite_def)
  with ex have "\<exists>resp.
      Execute int32_indefinite fixture_now New ''POST'' (Some zero_months_request) =
        (Load New (Result resp), Reply 200 (Some (ResponseBody resp)))
      \<and> MonthlyPayment (resAggregates (Result resp)) = - (2 ^ 31)"
    by blast
  with months payment flags has show ?thesis
    by (intro conjI)
qed

section \<open>The last payment date\<close>

text \<open>
  C8: on 15 March 2024 a request with a term of 12 months has the last payment date
  15 March 2025. \<open>prepareResponse\<close> formats it with the layout \<open>2006-01-01\<close>, whose
  third element is the month again, and gives \<open>2025-03-03\<close>; the string with the day of
  the month (the layout \<open>2006-01-02\<close>) is \<open>2025-03-15\<close>.
\<close>

theorem lastPaymentDate_fixture:
  "LastPaymentDate (resAggregates (Result (prepareResponse fixture_now fixture_request p r mp ov))) = ''2025-03-03''
   \<and> AddDate fixture_now (sint (reqMonths fixture_request)) = \<lparr>year = 2025, month = 3, day = 15\<rparr>
   \<and> Format (AddDate fixture_now (sint (reqMonths fixture_request))) ''2006-01-02'' = ''2025-03-15''"
  by (simp add: prepareResponse_def Let_def fixture_request_def AddDate_fixture appendInt_2025 appendInt_3 appendInt_15 del: Format.simps add: Format_layout Format_iso)

section \<open>Sequential inserts\<close>

text \<open>
  C3, as amended: for every sequence of \<open>N \<le> 2^31\<close> sequential \<open>Load\<close> calls on a
  fresh store, the store holds exactly \<open>N\<close> entries; the IDs given to the calls are
  \<open>0, 1, ..., N-1\<close> in the order of the calls, distinct and strictly increasing, they
  are the keys of the store, and the result of the \<open>i\<close>-th call is stored under its ID.
  In whatever order \<open>range\<close> visits the map, \<open>ReadAll\<close> returns a list whose length
  is the number of inserts, each entry carrying its key as ID; \<open>HasData\<close> is false
  exactly when no entry exists.
\<close>

theorem sequential_Load:
  assumes "length rs \<le> 2 ^ 31"
  shows "len (str (foldl Load New rs)) = length rs
     \<and> map sint (Load_ids New rs) = map int [0..<length rs]
     \<and> distinct (Load_ids New rs)
     \<and> sorted_wrt (<s) (Load_ids New rs)
     \<and> dom (str (foldl Load New rs)) = set (Load_ids New rs)
     \<and> (\<forall>i<length rs. str (foldl Load New rs) (Load_ids New rs ! i) =
           Some (cacheData_of (Load_ids New rs ! i) (rs ! i)))
     \<and> (\<forall>ks. range_order (foldl Load New rs) ks \<longrightarrow>
           length (ReadAll ks (foldl Load New rs)) = length rs
           \<and> map csfID (ReadAll ks (foldl Load New rs)) = ks)
     \<and> HasData (foldl Load New rs) = (length rs \<noteq> 0)"
proof -
  from assms have le: "length rs \<le> 2 ^ 32" by simp
  note ids = Load_ids_New [of rs]
  have len: "len (str (foldl Load New rs)) = length rs"
    by (rule len_foldl_Load_New [OF le])
  have "map sint (map word_of_nat [0..<length rs] :: int32 list) = map int [0..<length rs]"
    using assms by (simp add: sint_word_of_nat_small)
  then have sints: "map sint (Load_ids New rs) = map int [0..<length rs]"
    by (simp only: ids)
  have dist: "distinct (Load_ids New rs)"
    unfolding ids by (rule distinct_ids [OF le])
  have sorted: "sorted_wrt (<s) (Load_ids New rs)"
    unfolding ids by (rule sorted_ids [OF assms])
  have dom: "dom (str (foldl Load New rs)) = set (Load_ids New rs)"
    unfolding ids by (simp add: dom_foldl_Load_New [OF le])
  have entries: "\<forall>i<length rs. str (foldl Load New rs) (Load_ids New rs ! i) =
      Some (cacheData_of (Load_ids New rs ! i) (rs ! i))"
  proof (intro allI impI)
    fix i assume i: "i < length rs"
    with le have "i < 2 ^ 32" by simp
    then have u: "unat (word_of_nat i :: int32) = i"
      by (rule unat_word_of_nat_small)
    from i have "Load_ids New rs ! i = word_of_nat i"
      unfolding ids by simp
    with i u show "str (foldl Load New rs) (Load_ids New rs ! i) =
        Some (cacheData_of (Load_ids New rs ! i) (rs ! i))"
      by (simp add: str_foldl_Load_New [OF le])
  qed
  have read: "\<forall>ks. range_order (foldl Load New rs) ks \<longrightarrow>
      length (ReadAll ks (foldl Load New rs)) = length rs
      \<and> map csfID (ReadAll ks (foldl Load New rs)) = ks"
  proof (intro allI impI)
    fix ks assume ro: "range_order (foldl Load New rs) ks"
    have id: "\<And>k e. str (foldl Load New rs) k = Some e \<Longrightarrow> csfID e = k"
      by (rule csfID_foldl_Load_New [OF le])
    from ReadAll_range_order [OF ro id] len
    show "length (ReadAll ks (foldl Load New rs)) = length rs
        \<and> map csfID (ReadAll ks (foldl Load New rs)) = ks"
      by simp
  qed
  have has: "HasData (foldl Load New rs) = (length rs \<noteq> 0)"
    by (simp add: HasData_def len)
  from len sints dist sorted dom entries read has show ?thesis
    by (intro conjI)
qed

theorem sequential_Load_witness:
  "length [fixture_result, fixture_result, fixture_result] \<le> 2 ^ 31
   \<and> len (str (foldl Load New [fixture_result, fixture_result, fixture_result])) = 3
   \<and> map sint (Load_ids New [fixture_result, fixture_result, fixture_result]) = [0, 1, 2]
   \<and> range_order (foldl Load New [fixture_result, fixture_result, fixture_result]) [2, 0, 1]
   \<and> length (ReadAll [2, 0, 1]
        (foldl Load New [fixture_result, fixture_result, fixture_result])) = 3
   \<and> map csfID (ReadAll [2, 0, 1]
        (foldl Load New [fixture_result, fixture_result, fixture_result])) = [2, 0, 1]
   \<and> HasData (foldl Load New [fixture_result, fixture_result, fixture_result])
   \<and> \<not> HasData (foldl Load New [])"
proof -
  let ?rs = "[fixture_result, fixture_result, fixture_result]"
  have a: "length ?rs \<le> 2 ^ 31"
    by simp
  have b: "length ([] :: Result list) \<le> 2 ^ 31"
    by simp
  have upt3: "map int [0..<length ?rs] = [0, 1, 2]"
    by (simp add: upt_rec)
  have ids3: "Load_ids New ?rs = [0, 1, 2]"
    by (simp add: IDCounter_Load New_def)
  note w = sequential_Load [OF a]
  from w have "len (str (foldl Load New ?rs)) = length ?rs"
    by blast
  then have len: "len (str (foldl Load New ?rs)) = 3"
    by simp
  from w have "map sint (Load_ids New ?rs) = map int [0..<length ?rs]"
    by blast
  then have ids: "map sint (Load_ids New ?rs) = [0, 1, 2]"
    by (simp only: upt3)
  from w have "dom (str (foldl Load New ?rs)) = set (Load_ids New ?rs)"
    by blast
  then have "dom (str (foldl Load New ?rs)) = {0, 1, 2}"
    by (simp only: ids3) simp
  then have ro: "range_order (foldl Load New ?rs) [2, 0, 1]"
    unfolding range_order_def by auto
  from w ro have r: "length (ReadAll [2, 0, 1] (foldl Load New ?rs)) = length ?rs
      \<and> map csfID (ReadAll [2, 0, 1] (foldl Load New ?rs)) = [2, 0, 1]"
    by blast
  then have r1: "length (ReadAll [2, 0, 1] (foldl Load New ?rs)) = 3"
    by simp
  from r have r2: "map csfID (ReadAll [2, 0, 1] (foldl Load New ?rs)) = [2, 0, 1]"
    by blast
  from w have "HasData (foldl Load New ?rs) = (length ?rs \<noteq> 0)"
    by blast
  then have has: "HasData (foldl Load New ?rs)"
    by simp
  from sequential_Load [OF b]
  have "HasData (foldl Load New []) = (length ([] :: Result list) \<noteq> 0)"
    by blast
  then have empty: "\<not> HasData (foldl Load New [])"
    by simp
  from a len ids ro r1 r2 has empty show ?thesis
    by (intro conjI)
qed

text \<open>
  Without the bound the claim fails: the counter is an \<open>int32\<close> and wraps around. Of
  \<open>2^31 + 1\<close> calls the last is given the ID \<open>-2^31\<close>, so the IDs are not increasing,
  and the store holds an entry with the ID \<open>-2^31\<close>.
\<close>

theorem sequential_Load_counterexample:
  "sint (Load_ids New (replicate (Suc (2 ^ 31)) fixture_result) ! (2 ^ 31)) = - (2 ^ 31)
   \<and> \<not> sorted_wrt (<s) (Load_ids New (replicate (Suc (2 ^ 31)) fixture_result))
   \<and> map_option csfID
        (str (foldl Load New (replicate (Suc (2 ^ 31)) fixture_result)) (- (2 ^ 31)))
       = Some (- (2 ^ 31))"
proof -
  have a: "2 ^ 31 < length (replicate (Suc (2 ^ 31)) fixture_result)"
    by (simp only: length_replicate lessI)
  have b: "length (replicate (Suc (2 ^ 31)) fixture_result) \<le> 2 ^ 32"
    by (simp only: length_replicate) simp
  from wrapped_ids [OF a b] show ?thesis
    by (intro conjI)
qed

section \<open>Concurrent inserts\<close>

text \<open>
  C2: two concurrent \<open>Load\<close> calls on a fresh store, scheduled so that both run
  \<open>atomic.LoadInt32\<close> before either runs \<open>atomic.AddInt32\<close>, both read the ID 0; the
  second assignment to the map replaces the first. Both calls have returned, the
  counter is 2, and the store holds one entry.
\<close>

theorem concurrent_Load_overwrites:
  "run [0, 1, 0, 1, 0, 1] (New, [(v1, AtLoadInt32), (v2, AtLoadInt32)]) =
     (\<lparr>str = [0 \<mapsto> cacheData_of 0 v2], IDCounter = 2\<rparr>, [(v1, Returned), (v2, Returned)])
   \<and> len (str (fst (run [0, 1, 0, 1, 0, 1] (New, [(v1, AtLoadInt32), (v2, AtLoadInt32)])))) = 1
   \<and> range_order (fst (run [0, 1, 0, 1, 0, 1] (New, [(v1, AtLoadInt32), (v2, AtLoadInt32)]))) [0]
   \<and> length (ReadAll [0]
        (fst (run [0, 1, 0, 1, 0, 1] (New, [(v1, AtLoadInt32), (v2, AtLoadInt32)])))) = 1
   \<and> IDCounter (fst (run [0, 1, 0, 1, 0, 1] (New, [(v1, AtLoadInt32), (v2, AtLoadInt32)]))) = 2"
  by (simp add: New_def ReadAll_def len_def range_order_def map_filter_def)

end
